theory Spec2Isabelle
  imports Complex_Main
begin

section \<open>Vectors and numpy values\<close>

text \<open>
  The three scripts compute with numpy arrays of shape (3,) holding float64 numbers.
  A float64 is idealised as a \<^typ>\<open>real\<close>: rounding, overflow to infinity and NaN are
  outside this model, so its equations are equations of exact arithmetic. The one
  exception is the section on binary64, which rounds every operation and is used where a
  claim speaks of exact equality of computed results. An array of shape (3,) is a triple.
\<close>

type_synonym vec = "real \<times> real \<times> real"

definition zeros3 :: vec where
  "zeros3 = (0, 0, 0)"

fun vadd :: "vec \<Rightarrow> vec \<Rightarrow> vec" where
  "vadd (a, b, c) (d, e, f) = (a + d, b + e, c + f)"

fun vsub :: "vec \<Rightarrow> vec \<Rightarrow> vec" where
  "vsub (a, b, c) (d, e, f) = (a - d, b - e, c - f)"

fun smul :: "real \<Rightarrow> vec \<Rightarrow> vec" where
  "smul s (a, b, c) = (s * a, s * b, s * c)"

fun sdiv :: "vec \<Rightarrow> real \<Rightarrow> vec" where
  "sdiv (a, b, c) s = (a / s, b / s, c / s)"

fun np_dot :: "vec \<Rightarrow> vec \<Rightarrow> real" where
  "np_dot (a, b, c) (d, e, f) = a * d + b * e + c * f"

text \<open>\<^verbatim>\<open>np.linalg.norm\<close> of a vector: the Euclidean norm.\<close>

fun linalg_norm :: "vec \<Rightarrow> real" where
  "linalg_norm (a, b, c) = sqrt (a\<^sup>2 + b\<^sup>2 + c\<^sup>2)"

text \<open>The sum of a list of vectors, the \<open>\<Sigma>\<close> of the specification.\<close>

fun vsum :: "vec list \<Rightarrow> vec" where
  "vsum [] = zeros3"
| "vsum (v # vs) = vadd v (vsum vs)"

text \<open>
  Python's builtin \<^verbatim>\<open>sum\<close> starts from the integer \<^verbatim>\<open>0\<close> and adds the items with
  \<^verbatim>\<open>+\<close>; an integer plus an array is the array with the integer added to each
  component (broadcasting). A value that is either a Python number or an array:
\<close>

datatype npval = PyInt int | NdArray vec

fun np_add :: "npval \<Rightarrow> npval \<Rightarrow> npval" where
  "np_add (PyInt i) (PyInt j) = PyInt (i + j)"
| "np_add (PyInt i) (NdArray v) = NdArray (vadd (of_int i, of_int i, of_int i) v)"
| "np_add (NdArray v) (PyInt j) = NdArray (vadd v (of_int j, of_int j, of_int j))"
| "np_add (NdArray u) (NdArray v) = NdArray (vadd u v)"

definition py_sum :: "npval list \<Rightarrow> npval" where
  "py_sum xs = foldl np_add (PyInt 0) xs"

text \<open>\<^verbatim>\<open>np.linalg.norm\<close> and division by a float, on such a value.\<close>

fun np_norm :: "npval \<Rightarrow> real" where
  "np_norm (PyInt i) = \<bar>of_int i\<bar>"
| "np_norm (NdArray v) = linalg_norm v"

datatype npfloat = PyFloat real | FloatArray vec

fun np_div :: "npval \<Rightarrow> real \<Rightarrow> npfloat" where
  "np_div (PyInt i) s = PyFloat (of_int i / s)"
| "np_div (NdArray v) s = FloatArray (sdiv v s)"


section \<open>Charges\<close>

text \<open>
  A charge is a dictionary with the keys \<^verbatim>\<open>'pos'\<close> and \<^verbatim>\<open>'q'\<close>; the scripts add display
  keys (\<^verbatim>\<open>'valor_uC'\<close>, \<^verbatim>\<open>'id'\<close>, \<^verbatim>\<open>'nome'\<close>), which are record extensions. The
  evaluators read only \<^verbatim>\<open>'pos'\<close> and \<^verbatim>\<open>'q'\<close>, so they take any extension.
\<close>

record charge =
  pos :: vec
  q :: real

record carga_fixa = charge +
  nome :: string

section \<open>trabalho1\_campos.py\<close>

definition K_E :: real where
  "K_E = 8987551792.3"

definition EPSILON_0 :: real where
  "EPSILON_0 = 8.8541878128 / 10 ^ 12"

text \<open>The body of the loop of \<^verbatim>\<open>calcular_campo_eletrico\<close>: one charge, the field so far.\<close>

definition campo_passo :: "vec \<Rightarrow> vec \<Rightarrow> 'a charge_scheme \<Rightarrow> vec" where
  "campo_passo posicao E carga =
     (let vetor_r = vsub posicao (pos carga);
          distancia = linalg_norm vetor_r
      in if distancia < 0.05 then E
         else vadd E (smul (K_E * q carga / distancia ^ 3) vetor_r))"

definition calcular_campo_eletrico :: "vec \<Rightarrow> 'a charge_scheme list \<Rightarrow> vec" where
  "calcular_campo_eletrico posicao cargas = foldl (campo_passo posicao) zeros3 cargas"

text \<open>
  \<^verbatim>\<open>np.linspace(a, b, n)\<close>: \<open>n\<close> points from \<open>a\<close> with the step \<open>(b - a) / (n - 1)\<close>.
\<close>

definition linspace :: "real \<Rightarrow> real \<Rightarrow> nat \<Rightarrow> real list" where
  "linspace a b n = map (\<lambda>i. a + real i * ((b - a) / (real n - 1))) [0..<n]"

definition pontos_amostra :: "real list" where
  "pontos_amostra = linspace (-2) 2 8"

text \<open>
  The energy estimate: three nested loops over \<^verbatim>\<open>pontos_amostra\<close> that add
  \<^verbatim>\<open>np.dot(E, E)\<close> to \<^verbatim>\<open>energia_total\<close>, then the scaling by
  \<^verbatim>\<open>0.5 * EPSILON_0 * (4/7)**3\<close>.
\<close>

definition energia_soma :: "'a charge_scheme list \<Rightarrow> real" where
  "energia_soma cargas =
     foldl (\<lambda>acc x.
       foldl (\<lambda>acc y.
         foldl (\<lambda>acc z.
           (let E = calcular_campo_eletrico (x, y, z) cargas in acc + np_dot E E))
         acc pontos_amostra)
       acc pontos_amostra)
     0 pontos_amostra"

definition energia_total :: "'a charge_scheme list \<Rightarrow> real" where
  "energia_total cargas = energia_soma cargas * (0.5 * EPSILON_0 * (4 / 7) ^ 3)"

text \<open>The right-hand side of the field-line equation, \<^verbatim>\<open>equacao_diferencial(t, pos)\<close>.\<close>

definition equacao_diferencial :: "'a charge_scheme list \<Rightarrow> vec \<Rightarrow> vec" where
  "equacao_diferencial cargas p =
     (let E = calcular_campo_eletrico p cargas;
          norma = linalg_norm E
      in if norma > 1 / 10 ^ 6 then sdiv E norma else (0, 0, 0))"

text \<open>
  Exceptions are values: a computation that may raise returns \<open>py_error + 'a\<close>.
\<close>

datatype py_error = TypeError | ValueError | RuntimeError

text \<open>
  \<^verbatim>\<open>scipy.integrate.solve_ivp\<close> is library code: it is a parameter of the model, a
  function from the right-hand side and the initial point to the sampled trajectory, or
  to the exception it raises. The right-hand side may raise too.
\<close>

type_synonym polyline = "vec list"

type_synonym 'r solver = "(vec \<Rightarrow> py_error + 'r) \<Rightarrow> vec \<Rightarrow> py_error + polyline"

text \<open>
  One field line of \<^verbatim>\<open>trabalho1_campos.py\<close>: the \<^verbatim>\<open>try\<close> block integrates and adds
  the trace to the figure; the bare \<^verbatim>\<open>except: pass\<close> turns every exception into the
  unchanged figure. The figure is the list of the traces added so far.
\<close>

definition tracar_linha ::
  "vec solver \<Rightarrow> 'a charge_scheme list \<Rightarrow> polyline list \<Rightarrow> vec \<Rightarrow> py_error + polyline list" where
  "tracar_linha solve_ivp cargas fig ponto_inicial =
     (case solve_ivp (\<lambda>p. Inr (equacao_diferencial cargas p)) ponto_inicial of
        Inr solucao \<Rightarrow> Inr (fig @ [solucao])
      | Inl e \<Rightarrow> Inr fig)"

text \<open>
  The seed of a line: a random direction, normalised, at the distance 0.2 from the
  charge. The random directions are an input of the model.
\<close>

definition ponto_inicial_de :: "'a charge_scheme \<Rightarrow> vec \<Rightarrow> vec" where
  "ponto_inicial_de carga direcao =
     vadd (pos carga) (smul 0.2 (sdiv direcao (linalg_norm direcao)))"

text \<open>The inner loop, \<^verbatim>\<open>for _ in range(n_linhas)\<close>, one iteration for each direction drawn.\<close>

fun linhas_da_carga ::
  "vec solver \<Rightarrow> 'a charge_scheme list \<Rightarrow> 'a charge_scheme \<Rightarrow> vec list \<Rightarrow> polyline list
     \<Rightarrow> py_error + polyline list" where
  "linhas_da_carga solve_ivp cargas carga [] fig = Inr fig"
| "linhas_da_carga solve_ivp cargas carga (direcao # ds) fig =
     (case tracar_linha solve_ivp cargas fig (ponto_inicial_de carga direcao) of
        Inl e \<Rightarrow> Inl e
      | Inr fig' \<Rightarrow> linhas_da_carga solve_ivp cargas carga ds fig')"

definition n_linhas :: nat where
  "n_linhas = 12"

text \<open>
  The outer loop, \<^verbatim>\<open>for carga in cargas: if carga['q'] > 0\<close>, which runs when
  \<^verbatim>\<open>mostrar_linhas\<close> is set. \<open>rand i\<close> is the \<open>i\<close>-th vector that
  \<^verbatim>\<open>np.random.randn(3)\<close> returns and \<open>k\<close> counts the draws made. The third argument is
  the whole charge list, which the tangent function reads; the fourth is the part of it
  that the loop has still to visit.
\<close>

fun linhas_de_campo ::
  "vec solver \<Rightarrow> (nat \<Rightarrow> vec) \<Rightarrow> 'a charge_scheme list \<Rightarrow> 'a charge_scheme list \<Rightarrow> nat
     \<Rightarrow> polyline list \<Rightarrow> py_error + polyline list" where
  "linhas_de_campo solve_ivp rand cargas [] k fig = Inr fig"
| "linhas_de_campo solve_ivp rand cargas (carga # resto) k fig =
     (if q carga > 0 then
        (case linhas_da_carga solve_ivp cargas carga (map rand [k..<k + n_linhas]) fig of
           Inl e \<Rightarrow> Inl e
         | Inr fig' \<Rightarrow> linhas_de_campo solve_ivp rand cargas resto (k + n_linhas) fig')
      else linhas_de_campo solve_ivp rand cargas resto k fig)"

section \<open>unnamed/part\_000\<close>

definition k_e :: real where
  "k_e = 8990000000"

definition epsilon_0 :: real where
  "epsilon_0 = 1 / (4 * pi * k_e)"

definition e_individual :: "vec \<Rightarrow> 'a charge_scheme \<Rightarrow> vec" where
  "e_individual pos' charge =
     (let r_vec = vsub pos' (pos charge);
          r = linalg_norm r_vec
      in if r < 1 / 10 ^ 8 then zeros3
         else sdiv (smul (k_e * q charge) r_vec) (r ^ 3))"

definition e_total :: "vec \<Rightarrow> 'a charge_scheme list \<Rightarrow> npval" where
  "e_total pos' charges = py_sum (map (\<lambda>c. NdArray (e_individual pos' c)) charges)"

definition potential_passo :: "vec \<Rightarrow> real \<Rightarrow> 'a charge_scheme \<Rightarrow> real" where
  "potential_passo pos' V c =
     (let r = linalg_norm (vsub pos' (pos c))
      in if r < 1 / 10 ^ 8 then V else V + k_e * q c / r)"

definition potential :: "vec \<Rightarrow> 'a charge_scheme list \<Rightarrow> real" where
  "potential pos' charges = foldl (potential_passo pos') 0 charges"

text \<open>
  A call of \<^verbatim>\<open>e_total\<close> with positional arguments: both parameters are required, so
  a call that leaves one out raises TypeError before the body runs. A missing argument
  is \<open>None\<close>.
\<close>

fun e_total_call :: "vec option \<Rightarrow> 'a charge_scheme list option \<Rightarrow> py_error + npval" where
  "e_total_call (Some pos') (Some charges) = Inr (e_total pos' charges)"
| "e_total_call _ _ = Inl TypeError"

text \<open>A list comprehension whose element expression may raise.\<close>

fun py_map :: "('a \<Rightarrow> py_error + 'b) \<Rightarrow> 'a list \<Rightarrow> py_error + 'b list" where
  "py_map f [] = Inr []"
| "py_map f (x # xs) =
     (case f x of
        Inl e \<Rightarrow> Inl e
      | Inr y \<Rightarrow> (case py_map f xs of Inl e \<Rightarrow> Inl e | Inr ys \<Rightarrow> Inr (y # ys)))"

text \<open>
  The energy estimate of part\_000. \<^verbatim>\<open>np.meshgrid(x, x, x)\<close> with the default indexing
  and \<^verbatim>\<open>ravel\<close> enumerate the points \<open>(x[j], x[i], x[k])\<close> with \<open>i\<close> outermost.
  The script calls \<^verbatim>\<open>e_total(p)\<close>, with one argument.
\<close>

definition grid_size_energy :: nat where
  "grid_size_energy = 20"

definition x_range :: "real list" where
  "x_range = linspace (-2) 2 grid_size_energy"

definition points_energy :: "vec list" where
  "points_energy =
     concat (map (\<lambda>yi. concat (map (\<lambda>xj. map (\<lambda>zk. (xj, yi, zk)) x_range) x_range)) x_range)"

definition dV :: real where
  "dV = (4 / (real grid_size_energy - 1)) ^ 3"

definition U :: "py_error + real" where
  "U = (case py_map (\<lambda>p. e_total_call (Some p) (None :: charge list option)) points_energy of
          Inl e \<Rightarrow> Inl e
        | Inr E_values \<Rightarrow>
            Inr ((epsilon_0 / 2) * sum_list (map (\<lambda>E. (np_norm E)\<^sup>2) E_values) * dV))"

text \<open>
  The right-hand side \<^verbatim>\<open>ode(t, r)\<close> of part\_000, which calls \<^verbatim>\<open>e_total(r)\<close>, and the
  loop over the start points, which has no \<^verbatim>\<open>try\<close>.
\<close>

definition ode :: "vec \<Rightarrow> py_error + npfloat" where
  "ode r =
     (case e_total_call (Some r) (None :: charge list option) of
        Inl e \<Rightarrow> Inl e
      | Inr E \<Rightarrow>
          Inr (let norm' = np_norm E
               in if norm' > 1 / 10 ^ 8 then np_div E norm' else FloatArray zeros3))"

fun field_lines :: "npfloat solver \<Rightarrow> vec list \<Rightarrow> polyline list \<Rightarrow> py_error + polyline list" where
  "field_lines solve_ivp [] fig = Inr fig"
| "field_lines solve_ivp (start # starts) fig =
     (case solve_ivp ode start of
        Inl e \<Rightarrow> Inl e
      | Inr line \<Rightarrow> field_lines solve_ivp starts (fig @ [line]))"

section \<open>trabalho2\_forcas.py\<close>





section \<open>The specification's formulas\<close>

text \<open>
  The field of one charge as the specification writes it,
  \<open>k\<^sub>e q\<^sub>i (point - pos\<^sub>i) / |point - pos\<^sub>i|\<^sup>3\<close>, and the superposition sum over the
  charges that are at least \<open>eps\<close> away. The constant and the guard are parameters.
\<close>

definition spec_field_term :: "real \<Rightarrow> vec \<Rightarrow> 'a charge_scheme \<Rightarrow> vec" where
  "spec_field_term k p c =
     sdiv (smul (k * q c) (vsub p (pos c))) ((linalg_norm (vsub p (pos c))) ^ 3)"

definition spec_fieldAt :: "real \<Rightarrow> real \<Rightarrow> vec \<Rightarrow> 'a charge_scheme list \<Rightarrow> vec" where
  "spec_fieldAt k eps p cs =
     vsum (map (spec_field_term k p) (filter (\<lambda>c. eps \<le> linalg_norm (vsub p (pos c))) cs))"

text \<open>The potential of the specification, \<open>\<Sigma> k\<^sub>e q\<^sub>i / |point - pos\<^sub>i|\<close>, with the same guard.\<close>

definition spec_potentialAt :: "real \<Rightarrow> real \<Rightarrow> vec \<Rightarrow> 'a charge_scheme list \<Rightarrow> real" where
  "spec_potentialAt k eps p cs =
     sum_list (map (\<lambda>c. k * q c / linalg_norm (vsub p (pos c)))
       (filter (\<lambda>c. eps \<le> linalg_norm (vsub p (pos c))) cs))"

text \<open>
  The sampling grid of the energy estimate of \<^verbatim>\<open>trabalho1_campos.py\<close>: the points that
  the three nested loops visit, in their order.
\<close>

definition grade_amostra :: "vec list" where
  "grade_amostra =
     concat (map (\<lambda>x. concat (map (\<lambda>y. map (\<lambda>z. (x, y, z)) pontos_amostra) pontos_amostra))
       pontos_amostra)"

text \<open>
  What one seed adds to the figure when a failed integration is dropped: its trajectory,
  or nothing. \<open>sementes\<close> lists the seeds of a whole run of the outer loop.
\<close>

definition linha_ou_nada :: "vec solver \<Rightarrow> 'a charge_scheme list \<Rightarrow> vec \<Rightarrow> polyline list" where
  "linha_ou_nada solve_ivp cargas s =
     (case solve_ivp (\<lambda>p. Inr (equacao_diferencial cargas p)) s of
        Inr solucao \<Rightarrow> [solucao]
      | Inl e \<Rightarrow> [])"

fun sementes :: "(nat \<Rightarrow> vec) \<Rightarrow> 'a charge_scheme list \<Rightarrow> nat \<Rightarrow> vec list" where
  "sementes rand [] k = []"
| "sementes rand (carga # resto) k =
     (if q carga > 0
      then map (\<lambda>i. ponto_inicial_de carga (rand i)) [k..<k + n_linhas]
             @ sementes rand resto (k + n_linhas)
      else sementes rand resto k)"

section \<open>Arithmetic in binary64\<close>

text \<open>
  Where a property depends on rounding, the field evaluator of \<^verbatim>\<open>trabalho1_campos.py\<close> is
  also modelled in binary64. \<open>fl\<close> rounds a real number to the nearest binary64 number,
  ties to the even significand: for \<open>2\<^sup>e \<le> |x| < 2\<^sup>e\<^sup>+\<^sup>1\<close> the binary64 numbers are the
  multiples of \<open>2\<^sup>e\<^sup>-\<^sup>5\<^sup>2\<close>, and below \<open>2\<^sup>-\<^sup>1\<^sup>0\<^sup>2\<^sup>2\<close> those of \<open>2\<^sup>-\<^sup>1\<^sup>0\<^sup>7\<^sup>4\<close>. Overflow to
  infinity is not modelled. Each operation returns the rounded exact result, as IEEE 754
  requires of \<open>+\<close>, \<open>-\<close>, \<open>*\<close>, \<open>/\<close> and the square root; the cube \<^verbatim>\<open>distancia**3\<close> is taken
  as rounded once.
\<close>

definition round_half_even :: "real \<Rightarrow> int" where
  "round_half_even y =
     (let f = \<lfloor>y\<rfloor>; r = y - of_int f
      in if r < 1 / 2 then f else if r > 1 / 2 then f + 1 else if even f then f else f + 1)"

definition fl :: "real \<Rightarrow> real" where
  "fl x =
     (if x = 0 then 0
      else (let e = max \<lfloor>log 2 \<bar>x\<bar>\<rfloor> (- 1022)
            in of_int (round_half_even (x * 2 powr (52 - of_int e))) * 2 powr (of_int e - 52)))"

definition fadd :: "real \<Rightarrow> real \<Rightarrow> real" where
  "fadd x y = fl (x + y)"

definition fsub :: "real \<Rightarrow> real \<Rightarrow> real" where
  "fsub x y = fl (x - y)"

definition fmul :: "real \<Rightarrow> real \<Rightarrow> real" where
  "fmul x y = fl (x * y)"

definition fdiv :: "real \<Rightarrow> real \<Rightarrow> real" where
  "fdiv x y = fl (x / y)"

definition fsqrt :: "real \<Rightarrow> real" where
  "fsqrt x = fl (sqrt x)"

definition fpow3 :: "real \<Rightarrow> real" where
  "fpow3 x = fl (x ^ 3)"

fun vadd_f64 :: "vec \<Rightarrow> vec \<Rightarrow> vec" where
  "vadd_f64 (a, b, c) (d, e, f) = (fadd a d, fadd b e, fadd c f)"

fun vsub_f64 :: "vec \<Rightarrow> vec \<Rightarrow> vec" where
  "vsub_f64 (a, b, c) (d, e, f) = (fsub a d, fsub b e, fsub c f)"

fun smul_f64 :: "real \<Rightarrow> vec \<Rightarrow> vec" where
  "smul_f64 s (a, b, c) = (fmul s a, fmul s b, fmul s c)"

text \<open>
  \<^verbatim>\<open>np.linalg.norm\<close> is the square root of the dot product of the vector with itself; the
  products are added here from left to right. Where the squares and their sums are
  binary64 numbers, as for vectors of small integers, every order gives the same norm.
\<close>

fun linalg_norm_f64 :: "vec \<Rightarrow> real" where
  "linalg_norm_f64 (a, b, c) = fsqrt (fadd (fadd (fmul a a) (fmul b b)) (fmul c c))"

text \<open>The literals \<^verbatim>\<open>8.9875517923e9\<close> and \<^verbatim>\<open>0.05\<close> denote the nearest binary64 numbers.\<close>

definition K_E_f64 :: real where
  "K_E_f64 = fl 8987551792.3"

definition campo_passo_f64 :: "vec \<Rightarrow> vec \<Rightarrow> 'a charge_scheme \<Rightarrow> vec" where
  "campo_passo_f64 posicao E carga =
     (let vetor_r = vsub_f64 posicao (pos carga);
          distancia = linalg_norm_f64 vetor_r
      in if distancia < fl 0.05 then E
         else vadd_f64 E (smul_f64 (fdiv (fmul K_E_f64 (q carga)) (fpow3 distancia)) vetor_r))"

definition calcular_campo_eletrico_f64 :: "vec \<Rightarrow> 'a charge_scheme list \<Rightarrow> vec" where
  "calcular_campo_eletrico_f64 posicao cargas = foldl (campo_passo_f64 posicao) zeros3 cargas"

section \<open>Vector algebra\<close>

lemma vadd_assoc: "vadd (vadd u v) w = vadd u (vadd v w)"
  by (cases u, cases v, cases w) simp

lemma vadd_zeros3 [simp]: "vadd zeros3 v = v" "vadd v zeros3 = v"
  by (cases v; simp add: zeros3_def)+

lemma vadd_000 [simp]: "vadd (0, 0, 0) v = v" "vadd v (0, 0, 0) = v"
  by (cases v; simp)+


lemma smul_zeros3 [simp]: "smul a zeros3 = zeros3"
  by (simp add: zeros3_def)


lemma smul_sdiv: "sdiv (smul (k * a) v) d = smul (k * a / d) v"
  by (cases v) simp



lemma linalg_norm_nonneg [simp]: "0 \<le> linalg_norm v"
  by (cases v) simp

lemma linalg_norm_smul: "linalg_norm (smul a v) = \<bar>a\<bar> * linalg_norm v"
proof (cases v)
  case (fields x y z)
  have "(a * x)\<^sup>2 + (a * y)\<^sup>2 + (a * z)\<^sup>2 = a\<^sup>2 * (x\<^sup>2 + y\<^sup>2 + z\<^sup>2)"
    by (simp add: power_mult_distrib algebra_simps)
  then show ?thesis
    using fields by (simp add: real_sqrt_mult)
qed

lemma np_dot_norm: "np_dot E E = (linalg_norm E)\<^sup>2"
  by (cases E) (simp add: power2_eq_square)

lemma sdiv_norm_unit:
  assumes "linalg_norm E \<noteq> 0"
  shows "linalg_norm (sdiv E (linalg_norm E)) = 1"
proof -
  have "sdiv E (linalg_norm E) = smul (1 / linalg_norm E) E"
    by (cases E) simp
  then have "linalg_norm (sdiv E (linalg_norm E)) = \<bar>1 / linalg_norm E\<bar> * linalg_norm E"
    by (simp only: linalg_norm_smul)
  with assms show ?thesis by simp
qed

lemma np_add_assoc: "np_add (np_add x y) z = np_add x (np_add y z)"
  by (cases x; cases y; cases z) (auto simp: vadd_assoc)

lemma np_add_PyInt0 [simp]: "np_add x (PyInt 0) = x" "np_add (PyInt 0) x = x"
  by (cases x; simp)+

section \<open>The field evaluators as superposition sums\<close>

lemma foldl_guarded_sum:
  "foldl (\<lambda>E c. if g c then E else vadd E (t c)) E cs =
     vadd E (vsum (map t (filter (\<lambda>c. \<not> g c) cs)))"
  by (induction cs arbitrary: E) (simp_all add: vadd_assoc)

lemma campo_passo_term:
  "campo_passo p E c =
     (if linalg_norm (vsub p (pos c)) < 0.05 then E else vadd E (spec_field_term K_E p c))"
  by (simp add: campo_passo_def spec_field_term_def Let_def smul_sdiv)

lemma foldl_campo_passo:
  "foldl (campo_passo p) E cs = vadd E (spec_fieldAt K_E 0.05 p cs)"
proof -
  have h: "campo_passo p =
      (\<lambda>E c. if linalg_norm (vsub p (pos c)) < 0.05 then E else vadd E (spec_field_term K_E p c))"
    by (intro ext) (rule campo_passo_term)
  have "foldl (campo_passo p) E cs =
      vadd E (vsum (map (spec_field_term K_E p)
        (filter (\<lambda>c. \<not> linalg_norm (vsub p (pos c)) < 0.05) cs)))"
    by (subst h) (rule foldl_guarded_sum)
  then show ?thesis
    unfolding spec_fieldAt_def by (simp only: not_less)
qed

lemma campo_fieldAt: "calcular_campo_eletrico p cs = spec_fieldAt K_E 0.05 p cs"
  by (simp add: calcular_campo_eletrico_def foldl_campo_passo)

lemma spec_fieldAt_append:
  "spec_fieldAt k eps p (A @ B) = vadd (spec_fieldAt k eps p A) (spec_fieldAt k eps p B)"
  by (induction A) (simp_all add: spec_fieldAt_def vadd_assoc)



lemma e_individual_term:
  "e_individual p c =
     (if linalg_norm (vsub p (pos c)) < 1 / 10 ^ 8 then zeros3 else spec_field_term k_e p c)"
  by (simp add: e_individual_def spec_field_term_def Let_def)

lemma foldl_np_add_arrays:
  "foldl np_add (NdArray a) (map (\<lambda>c. NdArray (f c)) cs) = NdArray (vadd a (vsum (map f cs)))"
  by (induction cs arbitrary: a) (simp_all add: vadd_assoc)

lemma e_total_nonempty:
  "cs \<noteq> [] \<Longrightarrow> e_total p cs = NdArray (vsum (map (e_individual p) cs))"
  by (cases cs) (simp_all add: e_total_def py_sum_def foldl_np_add_arrays)

lemma vsum_e_individual: "vsum (map (e_individual p) cs) = spec_fieldAt k_e (1 / 10 ^ 8) p cs"
  by (induction cs) (simp_all add: spec_fieldAt_def e_individual_term not_less)

lemma foldl_np_add_append:
  "foldl np_add a (xs @ ys) = np_add (foldl np_add a xs) (foldl np_add (PyInt 0) ys)"
proof (induction ys rule: rev_induct)
  case Nil
  show ?case by simp
next
  case (snoc y ys)
  have "foldl np_add a (xs @ ys @ [y]) = np_add (foldl np_add a (xs @ ys)) y"
    by simp
  also have "\<dots> = np_add (np_add (foldl np_add a xs) (foldl np_add (PyInt 0) ys)) y"
    by (simp only: snoc.IH)
  also have "\<dots> = np_add (foldl np_add a xs) (foldl np_add (PyInt 0) (ys @ [y]))"
    by (simp add: np_add_assoc)
  finally show ?case by simp
qed

lemma e_total_append: "e_total p (A @ B) = np_add (e_total p A) (e_total p B)"
  unfolding e_total_def py_sum_def by (simp only: map_append foldl_np_add_append)


section \<open>The potential\<close>

lemma foldl_guarded_real:
  "foldl (\<lambda>V c. if g c then V else V + t c) V cs =
     V + sum_list (map t (filter (\<lambda>c. \<not> g c) cs))"
  for V :: real
  by (induction cs arbitrary: V) (simp_all add: algebra_simps)

lemma potential_passo_eq:
  "potential_passo p =
     (\<lambda>V c. if linalg_norm (vsub p (pos c)) < 1 / 10 ^ 8 then V
            else V + k_e * q c / linalg_norm (vsub p (pos c)))"
  by (intro ext) (simp add: potential_passo_def Let_def)

lemma potential_sum: "potential p cs = spec_potentialAt k_e (1 / 10 ^ 8) p cs"
proof -
  have "potential p cs =
      0 + sum_list (map (\<lambda>c. k_e * q c / linalg_norm (vsub p (pos c)))
        (filter (\<lambda>c. \<not> linalg_norm (vsub p (pos c)) < 1 / 10 ^ 8) cs))"
    unfolding potential_def by (subst potential_passo_eq) (rule foldl_guarded_real)
  then show ?thesis
    unfolding spec_potentialAt_def by (simp only: not_less add_0)
qed

section \<open>The force evaluator\<close>















section \<open>The energy estimate\<close>

lemma foldl_add_sum: "foldl (\<lambda>acc x. acc + f x) a xs = a + sum_list (map f xs)"
  for a :: real
  by (induction xs arbitrary: a) (simp_all add: algebra_simps)

lemma foldl_nested_sum:
  "foldl (\<lambda>acc x. foldl (g x) acc ys) a xs = a + sum_list (map (\<lambda>x. sum_list (map (h x) ys)) xs)"
  if "\<And>x acc. foldl (g x) acc ys = acc + sum_list (map (h x) ys)"
  for a :: real
  by (induction xs arbitrary: a) (simp_all add: that algebra_simps)

lemma sum_list_concat_map:
  "sum_list (map f (concat (map g xs))) = sum_list (map (\<lambda>x. sum_list (map f (g x))) xs)"
  for f :: "'a \<Rightarrow> real"
  by (induction xs) simp_all

lemma energia_soma_grade:
  "energia_soma cargas =
     sum_list (map (\<lambda>p. (linalg_norm (calcular_campo_eletrico p cargas))\<^sup>2) grade_amostra)"
proof -
  let ?f = "\<lambda>p. (linalg_norm (calcular_campo_eletrico p cargas))\<^sup>2"
  have inner: "foldl (\<lambda>acc z. (let E = calcular_campo_eletrico (x, y, z) cargas in acc + np_dot E E))
                 acc pontos_amostra
               = acc + sum_list (map (\<lambda>z. ?f (x, y, z)) pontos_amostra)" for x y acc
    by (simp only: Let_def np_dot_norm foldl_add_sum)
  have middle: "foldl (\<lambda>acc y. foldl (\<lambda>acc z.
                   (let E = calcular_campo_eletrico (x, y, z) cargas in acc + np_dot E E))
                 acc pontos_amostra) acc pontos_amostra
               = acc + sum_list (map (\<lambda>y. sum_list (map (\<lambda>z. ?f (x, y, z)) pontos_amostra))
                   pontos_amostra)" for x acc
    by (rule foldl_nested_sum) (rule inner)
  have outer: "energia_soma cargas =
      0 + sum_list (map (\<lambda>x. sum_list (map (\<lambda>y. sum_list (map (\<lambda>z. ?f (x, y, z)) pontos_amostra))
                   pontos_amostra)) pontos_amostra)"
    unfolding energia_soma_def by (rule foldl_nested_sum) (rule middle)
  show ?thesis
    unfolding outer grade_amostra_def
    by (simp add: sum_list_concat_map comp_def)
qed

lemma length_pontos_amostra: "length pontos_amostra = 8"
  by (simp add: pontos_amostra_def linspace_def)

lemma length_grade_amostra: "length grade_amostra = 8 ^ 3"
  by (simp add: grade_amostra_def length_concat comp_def sum_list_triv length_pontos_amostra)

lemma points_energy_nonempty: "points_energy \<noteq> []"
proof -
  have "length x_range = 20"
    by (simp add: x_range_def linspace_def grid_size_energy_def)
  then obtain x xs where xr: "x_range = x # xs"
    by (cases x_range) simp_all
  show ?thesis
    unfolding points_energy_def xr by simp
qed

section \<open>The field-line loops\<close>

lemma tracar_linha_eq:
  "tracar_linha solve_ivp cargas fig s = Inr (fig @ linha_ou_nada solve_ivp cargas s)"
  by (simp add: tracar_linha_def linha_ou_nada_def split: sum.split)

lemma linhas_da_carga_eq:
  "linhas_da_carga solve_ivp cargas carga ds fig =
     Inr (fig @ concat (map (\<lambda>d. linha_ou_nada solve_ivp cargas (ponto_inicial_de carga d)) ds))"
  by (induction ds arbitrary: fig) (simp_all add: tracar_linha_eq)

lemma linhas_de_campo_eq:
  "linhas_de_campo solve_ivp rand cargas resto k fig =
     Inr (fig @ concat (map (linha_ou_nada solve_ivp cargas) (sementes rand resto k)))"
  by (induction resto arbitrary: k fig) (simp_all add: linhas_da_carga_eq comp_def)

lemma field_lines_first_failure:
  "solve_ivp ode start = Inl e \<Longrightarrow> field_lines solve_ivp (start # starts) fig = Inl e"
  by simp

lemma equacao_diferencial_cases:
  "equacao_diferencial cargas p =
     (if linalg_norm (calcular_campo_eletrico p cargas) > 1 / 10 ^ 6
      then sdiv (calcular_campo_eletrico p cargas) (linalg_norm (calcular_campo_eletrico p cargas))
      else zeros3)"
  by (simp add: equacao_diferencial_def Let_def zeros3_def)

lemma equacao_diferencial_unit_or_zero:
  "(linalg_norm (calcular_campo_eletrico p cargas) > 1 / 10 ^ 6
      \<longrightarrow> linalg_norm (equacao_diferencial cargas p) = 1)
   \<and> (linalg_norm (calcular_campo_eletrico p cargas) \<le> 1 / 10 ^ 6
      \<longrightarrow> equacao_diferencial cargas p = zeros3)"
proof -
  have "linalg_norm (equacao_diferencial cargas p) = 1"
    if "linalg_norm (calcular_campo_eletrico p cargas) > 1 / 10 ^ 6"
  proof -
    from that have "linalg_norm (calcular_campo_eletrico p cargas) \<noteq> 0" by auto
    from sdiv_norm_unit [OF this] that show ?thesis
      by (simp add: equacao_diferencial_cases)
  qed
  moreover have "equacao_diferencial cargas p = zeros3"
    if "linalg_norm (calcular_campo_eletrico p cargas) \<le> 1 / 10 ^ 6"
    using that by (simp add: equacao_diferencial_cases)
  ultimately show ?thesis by blast
qed

section \<open>Rounding in binary64\<close>

lemma round_half_even_nearest:
  assumes "\<bar>y - of_int m\<bar> < 1 / 2 \<or> (\<bar>y - of_int m\<bar> = 1 / 2 \<and> even m)"
  shows "round_half_even y = m"
proof (cases "of_int m \<le> y")
  case True
  with assms have "\<lfloor>y\<rfloor> = m" by (intro floor_unique) auto
  with True assms show ?thesis by (auto simp: round_half_even_def Let_def)
next
  case False
  with assms have f: "\<lfloor>y\<rfloor> = m - 1" by (intro floor_unique) auto
  from False assms have "y - of_int (m - 1) > 1 / 2 \<or> (y - of_int (m - 1) = 1 / 2 \<and> even m)"
    by auto
  with f show ?thesis by (auto simp: round_half_even_def Let_def)
qed

text \<open>
  The value of \<open>fl\<close> from the binade \<open>e\<close> of \<open>x\<close> and the integer significand \<open>m\<close> nearest
  to \<open>x / 2\<^sup>e\<^sup>-\<^sup>5\<^sup>2\<close>, even in a tie.
\<close>

lemma fl_nearest:
  assumes "2 powr of_int e \<le> \<bar>x\<bar>" and "\<bar>x\<bar> < 2 powr (of_int e + 1)" and "- 1022 \<le> e"
    and "\<bar>x * 2 powr (52 - of_int e) - of_int m\<bar> < 1 / 2
         \<or> (\<bar>x * 2 powr (52 - of_int e) - of_int m\<bar> = 1 / 2 \<and> even m)"
  shows "fl x = of_int m * 2 powr (of_int e - 52)"
proof -
  have pos: "0 < \<bar>x\<bar>"
    using assms(1) powr_gt_zero [of 2 "of_int e"] by linarith
  then have "\<lfloor>log 2 \<bar>x\<bar>\<rfloor> = e"
    using assms(1,2) by (simp add: floor_log_eq_powr_iff)
  with assms(3) have "max \<lfloor>log 2 \<bar>x\<bar>\<rfloor> (- 1022) = e" by simp
  moreover from pos have "x \<noteq> 0" by auto
  ultimately show ?thesis
    by (simp add: fl_def Let_def round_half_even_nearest [OF assms(4)])
qed

lemma fl_0 [simp]: "fl 0 = 0"
  by (simp add: fl_def)

text \<open>The roundings that the evaluation below meets.\<close>

lemma fl_value_1: "fl (- (2356032777040691 / 131072)) = - (2356032777040691 / 131072)"
  using fl_nearest [of 34 "- (2356032777040691 / 131072)" "- 4712065554081382"] by (simp add: powr_minus_divide)

lemma fl_value_2: "fl (- 1) = - 1"
  using fl_nearest [of 0 "- 1" "- 4503599627370496"] by (simp add: powr_minus_divide)

lemma fl_value_3: "fl (1 / 20) = 3602879701896397 / 72057594037927936"
  using fl_nearest [of "- 5" "1 / 20" 7205759403792794] by (simp add: powr_minus_divide)

lemma fl_value_4: "fl (1) = 1"
  using fl_nearest [of 0 "1" 4503599627370496] by (simp add: powr_minus_divide)

lemma fl_value_5: "fl (2) = 2"
  using fl_nearest [of 1 "2" 4503599627370496] by (simp add: powr_minus_divide)

lemma fl_value_6: "fl (4) = 4"
  using fl_nearest [of 2 "4" 4503599627370496] by (simp add: powr_minus_divide)

lemma fl_value_7: "fl (8) = 8"
  using fl_nearest [of 3 "8" 4503599627370496] by (simp add: powr_minus_divide)

lemma fl_value_8: "fl (2356032777040691 / 262144) = 2356032777040691 / 262144"
  using fl_nearest [of 33 "2356032777040691 / 262144" 4712065554081382] by (simp add: powr_minus_divide)

lemma fl_value_9: "fl (89875517923 / 10) = 2356032777040691 / 262144"
  using fl_nearest [of 33 "89875517923 / 10" 4712065554081382] by (simp add: powr_minus_divide)

lemma fl_value_10: "fl (7068098331122073 / 524288) = 7068098331122073 / 524288"
  using fl_nearest [of 33 "7068098331122073 / 524288" 7068098331122073] by (simp add: powr_minus_divide)

lemma fl_value_11: "fl (2356032777040691 / 131072) = 2356032777040691 / 131072"
  using fl_nearest [of 34 "2356032777040691 / 131072" 4712065554081382] by (simp add: powr_minus_divide)

lemma fl_value_12: "fl (7068098331122073 / 262144) = 7068098331122073 / 262144"
  using fl_nearest [of 34 "7068098331122073 / 262144" 7068098331122073] by (simp add: powr_minus_divide)

lemma fl_value_13: "fl (11780163885203455 / 262144) = 89875517923 / 2"
  using fl_nearest [of 35 "11780163885203455 / 262144" 5890081942601728] by (simp add: powr_minus_divide)

lemma fl_value_14: "fl (7068098331122073 / 131072) = 7068098331122073 / 131072"
  using fl_nearest [of 35 "7068098331122073 / 131072" 7068098331122073] by (simp add: powr_minus_divide)

lemma fl_value_15: "fl (14136196662244147 / 262144) = 3534049165561037 / 65536"
  using fl_nearest [of 35 "14136196662244147 / 262144" 7068098331122074] by (simp add: powr_minus_divide)

lemma fl_value_16: "fl (7068098331122073 / 65536) = 7068098331122073 / 65536"
  using fl_nearest [of 36 "7068098331122073 / 65536" 7068098331122073] by (simp add: powr_minus_divide)

lemmas fl_values =
  fl_value_1 fl_value_2 fl_value_3 fl_value_4 fl_value_5 fl_value_6
  fl_value_7 fl_value_8 fl_value_9 fl_value_10 fl_value_11 fl_value_12
  fl_value_13 fl_value_14 fl_value_15 fl_value_16

section \<open>Claims about the field evaluators\<close>

text \<open>
  Claim C1, as amended. For every query point \<open>p\<close> and every finite list of charges,
  \<^verbatim>\<open>calcular_campo_eletrico\<close> returns the superposition sum over exactly the charges at a
  distance of at least 0.05, each contributing \<open>k\<^sub>e q\<^sub>i (p - pos\<^sub>i) / |p - pos\<^sub>i|\<^sup>3\<close> with
  \<open>k\<^sub>e = 8.9875517923e9\<close>. \<^verbatim>\<open>e_total\<close> of part\_000 returns, for a non-empty list, the same
  sum with the guard \<open>1e-8\<close> and with \<open>k\<^sub>e = 8.99e9\<close>. A charge closer than the guard
  contributes the zero vector: removing it from the list does not change the field.
  Neither function has a path that raises: every division is behind its guard.
\<close>

theorem field_evaluators_superposition:
  "calcular_campo_eletrico p cs = spec_fieldAt 8987551792.3 0.05 p cs
   \<and> (cs \<noteq> [] \<longrightarrow> e_total p cs = NdArray (spec_fieldAt 8990000000 (1 / 10 ^ 8) p cs))
   \<and> (linalg_norm (vsub p (pos c)) < 0.05 \<longrightarrow>
         calcular_campo_eletrico p (as @ c # bs) = calcular_campo_eletrico p (as @ bs))
   \<and> (linalg_norm (vsub p (pos c)) < 1 / 10 ^ 8 \<longrightarrow> e_individual p c = zeros3)"
proof -
  have "calcular_campo_eletrico p cs = spec_fieldAt 8987551792.3 0.05 p cs"
    using campo_fieldAt [of p cs] by (simp only: K_E_def)
  moreover have "cs \<noteq> [] \<longrightarrow> e_total p cs = NdArray (spec_fieldAt 8990000000 (1 / 10 ^ 8) p cs)"
    using e_total_nonempty [of cs p] vsum_e_individual [of p cs] by (simp only: k_e_def) simp
  moreover have "linalg_norm (vsub p (pos c)) < 0.05 \<longrightarrow>
      calcular_campo_eletrico p (as @ c # bs) = calcular_campo_eletrico p (as @ bs)"
    by (simp add: campo_fieldAt spec_fieldAt_def)
  moreover have "linalg_norm (vsub p (pos c)) < 1 / 10 ^ 8 \<longrightarrow> e_individual p c = zeros3"
    by (simp only: e_individual_term) simp
  ultimately show ?thesis by blast
qed

text \<open>
  The theorem at the point \<open>(1, 0, 0)\<close> with a unit charge at the origin and a charge of 5
  at the point itself: the second charge is inside both guards and adds nothing.
\<close>

theorem field_evaluators_superposition_witness:
  "[\<lparr>pos = (0, 0, 0), q = 1\<rparr>, \<lparr>pos = (1, 0, 0), q = 5\<rparr>] \<noteq> []
   \<and> linalg_norm (vsub (1, 0, 0) (pos \<lparr>pos = (1, 0, 0), q = 5\<rparr>)) < 0.05
   \<and> linalg_norm (vsub (1, 0, 0) (pos \<lparr>pos = (1, 0, 0), q = 5\<rparr>)) < 1 / 10 ^ 8
   \<and> calcular_campo_eletrico (1, 0, 0) [\<lparr>pos = (0, 0, 0), q = 1\<rparr>, \<lparr>pos = (1, 0, 0), q = 5\<rparr>]
       = (8987551792.3, 0, 0)
   \<and> e_total (1, 0, 0) [\<lparr>pos = (0, 0, 0), q = 1\<rparr>, \<lparr>pos = (1, 0, 0), q = 5\<rparr>]
       = NdArray (8990000000, 0, 0)
   \<and> calcular_campo_eletrico (1, 0, 0) [\<lparr>pos = (0, 0, 0), q = 1\<rparr>, \<lparr>pos = (1, 0, 0), q = 5\<rparr>]
       = calcular_campo_eletrico (1, 0, 0) [\<lparr>pos = (0, 0, 0), q = 1\<rparr>]
   \<and> e_individual (1, 0, 0) \<lparr>pos = (1, 0, 0), q = 5\<rparr> = zeros3"
  using field_evaluators_superposition
          [of "(1, 0, 0)" "[\<lparr>pos = (0, 0, 0), q = 1\<rparr>, \<lparr>pos = (1, 0, 0), q = 5\<rparr>]"
              "\<lparr>pos = (1, 0, 0), q = 5\<rparr>" "[\<lparr>pos = (0, 0, 0), q = 1\<rparr>]" "[]"]
  by (auto simp: spec_fieldAt_def spec_field_term_def zeros3_def)

text \<open>
  Claim C1 as it is stated gives the constant \<open>8.9875517923e9\<close> to every field evaluator.
  At \<open>(0, 2, 0)\<close> with a unit charge at the origin \<^verbatim>\<open>e_total\<close> returns
  \<open>(0, 2247500000, 0)\<close>, not the sum with that constant; and for the empty list it returns
  the integer 0, not a vector.
\<close>

theorem e_total_coulomb_constant_counterexample:
  "e_total (0, 2, 0) [\<lparr>pos = (0, 0, 0), q = 1\<rparr>]
     \<noteq> NdArray (spec_fieldAt 8987551792.3 (1 / 10 ^ 8) (0, 2, 0) [\<lparr>pos = (0, 0, 0), q = 1\<rparr>])
   \<and> e_total (0, 2, 0) [\<lparr>pos = (0, 0, 0), q = 1\<rparr>] = NdArray (0, 2247500000, 0)
   \<and> e_total (0, 2, 0) ([] :: charge list)
     \<noteq> NdArray (spec_fieldAt 8987551792.3 (1 / 10 ^ 8) (0, 2, 0) [])"
  by (simp add: e_total_def py_sum_def e_individual_def spec_fieldAt_def spec_field_term_def
      k_e_def zeros3_def)

text \<open>
  Claim C3, as amended. In exact arithmetic, with the rounding of float64 set aside, the
  field evaluators are linear in superposition: over the concatenation of two charge
  lists each returns the sum of its results over the two lists. For \<^verbatim>\<open>e_total\<close> the sum is
  Python's \<^verbatim>\<open>+\<close> on its results. The lists need not be disjoint.
\<close>

theorem field_superposition_append:
  "calcular_campo_eletrico p (A @ B) =
     vadd (calcular_campo_eletrico p A) (calcular_campo_eletrico p B)
   \<and> e_total p (A @ B) = np_add (e_total p A) (e_total p B)"
  by (simp add: campo_fieldAt spec_fieldAt_append e_total_append)

text \<open>
  Claim C3 as it is stated, in binary64: at the origin, with a charge of 1 at
  \<open>(-1, 0, 0)\<close> in the first list and charges of -2 at \<open>(1, 0, 0)\<close> and of 12 at
  \<open>(-2, 0, 0)\<close> in the second, the three contributions along \<open>x\<close> are \<open>K\<close>, \<open>2K\<close> and \<open>3K\<close>
  for the binary64 constant \<open>K\<close>. Added in the order of the concatenated list they give
  \<open>53925310753.799995\<close>; the sum of the two partial results is \<open>53925310753.8\<close>, the next
  binary64 number.
\<close>

theorem float64_superposition_counterexample:
  "calcular_campo_eletrico_f64 (0, 0, 0)
     ([\<lparr>pos = (- 1, 0, 0), q = 1\<rparr>] @ [\<lparr>pos = (1, 0, 0), q = - 2\<rparr>, \<lparr>pos = (- 2, 0, 0), q = 12\<rparr>])
     = (7068098331122073 / 131072, 0, 0)
   \<and> vadd_f64 (calcular_campo_eletrico_f64 (0, 0, 0) [\<lparr>pos = (- 1, 0, 0), q = 1\<rparr>])
        (calcular_campo_eletrico_f64 (0, 0, 0)
           [\<lparr>pos = (1, 0, 0), q = - 2\<rparr>, \<lparr>pos = (- 2, 0, 0), q = 12\<rparr>])
     = (3534049165561037 / 65536, 0, 0)
   \<and> calcular_campo_eletrico_f64 (0, 0, 0)
     ([\<lparr>pos = (- 1, 0, 0), q = 1\<rparr>] @ [\<lparr>pos = (1, 0, 0), q = - 2\<rparr>, \<lparr>pos = (- 2, 0, 0), q = 12\<rparr>])
     \<noteq> vadd_f64 (calcular_campo_eletrico_f64 (0, 0, 0) [\<lparr>pos = (- 1, 0, 0), q = 1\<rparr>])
        (calcular_campo_eletrico_f64 (0, 0, 0)
           [\<lparr>pos = (1, 0, 0), q = - 2\<rparr>, \<lparr>pos = (- 2, 0, 0), q = 12\<rparr>])"
  by (simp add: calcular_campo_eletrico_f64_def campo_passo_f64_def zeros3_def K_E_f64_def
      fadd_def fsub_def fmul_def fdiv_def fsqrt_def fpow3_def fl_values)




text \<open>
  Claim C6. For the empty charge list \<^verbatim>\<open>calcular_campo_eletrico\<close> returns the zero vector
  and \<^verbatim>\<open>potential\<close> returns 0, but \<^verbatim>\<open>e_total\<close> returns the integer 0 with which
  Python's \<^verbatim>\<open>sum\<close> starts, which is not an array of shape (3,).
\<close>

theorem empty_charge_list_results:
  "calcular_campo_eletrico p [] = zeros3 \<and> potential p [] = 0
   \<and> e_total p [] = PyInt 0 \<and> e_total p [] \<noteq> NdArray zeros3"
  by (simp add: calcular_campo_eletrico_def potential_def e_total_def py_sum_def)

text \<open>
  Claim C9. For every query point and charge list \<^verbatim>\<open>potential\<close> returns the sum of
  \<open>k\<^sub>e q\<^sub>i / |p - pos\<^sub>i|\<close> over exactly the charges at a distance of at least \<open>1e-8\<close>; for a
  single charge, two points at the same distance from it have the same potential.
\<close>

theorem potential_superposition:
  "potential p cs = spec_potentialAt k_e (1 / 10 ^ 8) p cs
   \<and> (linalg_norm (vsub p (pos c)) = linalg_norm (vsub p' (pos c))
        \<longrightarrow> potential p [c] = potential p' [c])"
  by (simp add: potential_sum) (simp add: spec_potentialAt_def)

text \<open>
  The theorem at the points \<open>(3, 0, 0)\<close> and \<open>(0, 0, 3)\<close>, both at the distance 3 from a
  charge of 2 at the origin.
\<close>

theorem potential_superposition_witness:
  "linalg_norm (vsub (3, 0, 0) (pos \<lparr>pos = (0, 0, 0), q = 2\<rparr>))
     = linalg_norm (vsub (0, 0, 3) (pos \<lparr>pos = (0, 0, 0), q = 2\<rparr>))
   \<and> potential (3, 0, 0) [\<lparr>pos = (0, 0, 0), q = 2\<rparr>] = potential (0, 0, 3) [\<lparr>pos = (0, 0, 0), q = 2\<rparr>]
   \<and> potential (3, 0, 0) [\<lparr>pos = (0, 0, 0), q = 2\<rparr>] = 17980000000 / 3"
  using potential_superposition
          [of "(3, 0, 0)" "[\<lparr>pos = (0, 0, 0), q = 2\<rparr>]" "\<lparr>pos = (0, 0, 0), q = 2\<rparr>" "(0, 0, 3)"]
  by (simp add: spec_potentialAt_def k_e_def)

section \<open>Claims about the force evaluator\<close>







section \<open>Claims about the energy estimate and the field lines\<close>

text \<open>
  Claim C4. The energy estimate of \<^verbatim>\<open>trabalho1_campos.py\<close> is \<open>\<epsilon>\<^sub>0 / 2\<close> times the sum of
  \<open>|E(p)|\<^sup>2\<close> over the \<open>8\<^sup>3\<close> points of the sampling grid times \<open>(L / (n - 1))\<^sup>3\<close> with
  \<open>L = 2 - (-2) = 4\<close> and \<open>n = 8\<close>, and \<open>(4/7)\<^sup>3\<close> is that volume element. The estimate
  \<^verbatim>\<open>U\<close> of part\_000 is written to the same formula with \<open>n = 20\<close>, but it evaluates the field
  with \<^verbatim>\<open>e_total(p)\<close>, without the charges, and raises TypeError at the first grid point for
  every charge configuration.
\<close>

theorem energy_estimate:
  "U = Inl TypeError
   \<and> energia_total cargas =
       (EPSILON_0 / 2)
       * sum_list (map (\<lambda>p. (linalg_norm (calcular_campo_eletrico p cargas))\<^sup>2) grade_amostra)
       * ((2 - (-2)) / (8 - 1)) ^ 3
   \<and> length grade_amostra = 8 ^ 3
   \<and> ((4 :: real) / 7) ^ 3 = ((2 - (-2)) / (8 - 1)) ^ 3"
proof -
  obtain p ps where ps: "points_energy = p # ps"
    using points_energy_nonempty by (cases points_energy) simp_all
  have "U = Inl TypeError"
    unfolding U_def ps by simp
  then show ?thesis
    by (simp add: energia_total_def energia_soma_grade length_grade_amostra)
qed

text \<open>
  Claim C7. In \<^verbatim>\<open>trabalho1_campos.py\<close> every run of the field-line loops returns a
  figure: the trajectories of the seeds whose integration succeeded, in order, the failed
  ones dropped. The loop of part\_000 has no \<^verbatim>\<open>try\<close>: with an integrator that fails on
  the second of three start points the whole batch ends in that exception, and with any
  integrator that evaluates the right-hand side at the start point it ends in the
  TypeError of \<^verbatim>\<open>e_total(r)\<close> at the first start point. The same integrator that fails on
  the seed \<open>(1, 0, 0)\<close> costs the loop of \<^verbatim>\<open>trabalho1_campos.py\<close> only that line.
\<close>

theorem field_lines_failure_aborts_batch:
  "field_lines (\<lambda>f s. if s = (1, 0, 0) then Inl RuntimeError else Inr [s])
      [(0, 0, 0), (1, 0, 0), (2, 0, 0)] [] = Inl RuntimeError
   \<and> field_lines (\<lambda>f s. case f s of Inl e \<Rightarrow> Inl e | Inr d \<Rightarrow> Inr [s]) [(0, 0, 0)] []
       = Inl TypeError
   \<and> linhas_da_carga (\<lambda>f s. if s = (1, 0, 0) then Inl RuntimeError else Inr [s])
        [\<lparr>pos = (0.8, 0, 0), q = 1\<rparr>] \<lparr>pos = (0.8, 0, 0), q = 1\<rparr>
        [(0, 5, 0), (3, 0, 0), (0, 0, 2)] []
      = Inr [[(0.8, 0.2, 0)], [(0.8, 0, 0.2)]]
   \<and> linhas_de_campo solve_ivp rand cargas cargas 0 []
      = Inr (concat (map (linha_ou_nada solve_ivp cargas) (sementes rand cargas 0)))"
proof -
  have "field_lines (\<lambda>f s. if s = (1, 0, 0) then Inl RuntimeError else Inr [s])
      [(0, 0, 0), (1, 0, 0), (2, 0, 0)] [] = Inl RuntimeError"
    by simp
  moreover have
    "field_lines (\<lambda>f s. case f s of Inl e \<Rightarrow> Inl e | Inr d \<Rightarrow> Inr [s]) [(0, 0, 0)] []
       = Inl TypeError"
    by (simp add: ode_def)
  moreover have "linhas_da_carga (\<lambda>f s. if s = (1, 0, 0) then Inl RuntimeError else Inr [s])
        [\<lparr>pos = (0.8, 0, 0), q = 1\<rparr>] \<lparr>pos = (0.8, 0, 0), q = 1\<rparr>
        [(0, 5, 0), (3, 0, 0), (0, 0, 2)] []
      = Inr [[(0.8, 0.2, 0)], [(0.8, 0, 0.2)]]"
    by (simp add: tracar_linha_def ponto_inicial_de_def)
  moreover have "linhas_de_campo solve_ivp rand cargas cargas 0 []
      = Inr (concat (map (linha_ou_nada solve_ivp cargas) (sementes rand cargas 0)))"
    by (simp add: linhas_de_campo_eq)
  ultimately show ?thesis by blast
qed

text \<open>
  Claim C8. The tangent function \<^verbatim>\<open>equacao_diferencial\<close> of \<^verbatim>\<open>trabalho1_campos.py\<close>
  returns \<open>E / |E|\<close> when \<open>|E|\<close> exceeds \<open>1e-6\<close> and the zero vector otherwise. The tangent
  function \<^verbatim>\<open>ode\<close> of part\_000 has the same guard, with the threshold \<open>1e-8\<close>, but it first
  calls \<^verbatim>\<open>e_total(r)\<close> without the charges and so raises TypeError at every point.
\<close>

theorem ode_raises_TypeError:
  "ode r = Inl TypeError
   \<and> equacao_diferencial cargas p =
       (if linalg_norm (calcular_campo_eletrico p cargas) > 1 / 10 ^ 6
        then sdiv (calcular_campo_eletrico p cargas)
               (linalg_norm (calcular_campo_eletrico p cargas))
        else zeros3)"
  by (simp add: ode_def equacao_diferencial_cases)

end
